theory Spec2Isabelle
  imports Main "HOL-Library.AList"
begin

section \<open>JavaScript values\<close>

text \<open>
  The library (\<^verbatim>\<open>src/lib/index.js\<close>) is dynamically typed: a token, the options, an
  axios error and a response body are plain objects whose properties may be missing or
  hold any value. The values the code can see are modelled by one datatype. A number is a
  whole number (the code computes with Unix seconds) or NaN; fractions, infinities,
  arrays, functions and symbols are not represented. The numbers of JavaScript are
  doubles: the whole numbers up to 2^53 in absolute value are doubles, and a sum of two
  of them that stays within 2^53 is the exact sum. Beyond 2^53 a double rounds, and the
  operations below leave the model there. An object is the list of its own properties.
\<close>

datatype jsval =
    JUndefined
  | JNull
  | JBool bool
  | JNum int
  | JNaN
  | JStr string
  | JObj "(string \<times> jsval) list"

type_synonym props = "(string \<times> jsval) list"

text \<open>
  What a piece of code does: it returns a value, or it throws (a rejected promise is a
  throw in an async function). \<open>Unmodelled\<close> marks the runs that leave the fragment of
  JavaScript modelled here (the conversion of a string or of an object to a number, a
  number beyond 2^53); nothing is claimed about them.
\<close>

datatype error =
    TokenExpired string  \<comment> \<open>\<^verbatim>\<open>new TokenExpired(message)\<close>\<close>
  | InvalidGrant jsval   \<comment> \<open>\<^verbatim>\<open>new InvalidGrant(message)\<close>, with the value passed as message\<close>
  | TypeError            \<comment> \<open>the TypeError the language raises by itself\<close>
  | TooManyPending       \<comment> \<open>the Error of \<^verbatim>\<open>async-lock\<close> for a call beyond its limit of pending calls\<close>
  | Other jsval          \<comment> \<open>any other thrown value, as it was thrown\<close>

datatype 'a result = Return 'a | Throw error | Unmodelled

fun andThen :: "'a result \<Rightarrow> ('a \<Rightarrow> 'b result) \<Rightarrow> 'b result" where
  "andThen (Return x) f = f x"
| "andThen (Throw e) f = Throw e"
| "andThen Unmodelled f = Unmodelled"

text \<open>Truthiness, as \<^verbatim>\<open>||\<close>, \<^verbatim>\<open>&&\<close> and \<^verbatim>\<open>if\<close> test it.\<close>

fun truthy :: "jsval \<Rightarrow> bool" where
  "truthy JUndefined = False"
| "truthy JNull = False"
| "truthy (JBool b) = b"
| "truthy (JNum n) = (n \<noteq> 0)"
| "truthy JNaN = False"
| "truthy (JStr s) = (s \<noteq> [])"
| "truthy (JObj ps) = True"

text \<open>\<^verbatim>\<open>a || b\<close>\<close>

definition js_or :: "jsval \<Rightarrow> jsval \<Rightarrow> jsval" where
  "js_or a b = (if truthy a then a else b)"

text \<open>The whole numbers on which the arithmetic of doubles is exact.\<close>

definition exact :: "int \<Rightarrow> bool" where
  "exact n = (\<bar>n\<bar> \<le> 2 ^ 53)"

text \<open>
  ToNumber on the values that are neither strings nor objects; \<open>None\<close> on a string or an
  object, whose conversion (parsing, \<^verbatim>\<open>valueOf\<close>) is outside the model, and on a number
  beyond 2^53.
\<close>

datatype numeric = Finite int | NotANumber

fun to_number :: "jsval \<Rightarrow> numeric option" where
  "to_number JUndefined = Some NotANumber"
| "to_number JNull = Some (Finite 0)"
| "to_number (JBool b) = Some (Finite (if b then 1 else 0))"
| "to_number (JNum n) = (if exact n then Some (Finite n) else None)"
| "to_number JNaN = Some NotANumber"
| "to_number (JStr s) = None"
| "to_number (JObj ps) = None"

fun of_numeric :: "numeric \<Rightarrow> jsval" where
  "of_numeric (Finite n) = JNum n"
| "of_numeric NotANumber = JNaN"

text \<open>
  \<^verbatim>\<open>a + b\<close> when neither operand is a string or an object: the sum of the numbers, as long
  as it stays within 2^53 (the double sum is then the exact one).
\<close>

fun numeric_add :: "numeric \<Rightarrow> numeric \<Rightarrow> numeric" where
  "numeric_add (Finite x) (Finite y) = Finite (x + y)"
| "numeric_add _ _ = NotANumber"

definition js_add :: "jsval \<Rightarrow> jsval \<Rightarrow> jsval result" where
  "js_add a b =
     (case (to_number a, to_number b) of
        (Some x, Some y) \<Rightarrow>
          (case numeric_add x y of
             Finite n \<Rightarrow> if exact n then Return (JNum n) else Unmodelled
           | NotANumber \<Rightarrow> Return JNaN)
      | _ \<Rightarrow> Unmodelled)"

text \<open>\<^verbatim>\<open>a >= b\<close> on the same values: false as soon as one side is NaN.\<close>

fun numeric_ge :: "numeric \<Rightarrow> numeric \<Rightarrow> bool" where
  "numeric_ge (Finite x) (Finite y) = (x \<ge> y)"
| "numeric_ge _ _ = False"

definition js_ge :: "jsval \<Rightarrow> jsval \<Rightarrow> bool result" where
  "js_ge a b =
     (case (to_number a, to_number b) of
        (Some x, Some y) \<Rightarrow> Return (numeric_ge x y)
      | _ \<Rightarrow> Unmodelled)"

text \<open>
  Own properties. \<open>own ps k\<close> is \<^verbatim>\<open>obj[k]\<close> on an object for a key that no prototype
  defines (the keys read by this library are such keys): the own property, else
  \<^verbatim>\<open>undefined\<close>. \<open>get_prop v k\<close> is \<^verbatim>\<open>v[k]\<close> on any value: reading a property of
  \<^verbatim>\<open>null\<close> or \<^verbatim>\<open>undefined\<close> throws a TypeError, and a boolean, a number or a string
  has no such property.
\<close>

definition own :: "props \<Rightarrow> string \<Rightarrow> jsval" where
  "own ps k = (case map_of ps k of None \<Rightarrow> JUndefined | Some v \<Rightarrow> v)"

fun get_prop :: "jsval \<Rightarrow> string \<Rightarrow> jsval result" where
  "get_prop JUndefined k = Throw TypeError"
| "get_prop JNull k = Throw TypeError"
| "get_prop (JObj ps) k = Return (own ps k)"
| "get_prop v k = Return JUndefined"

text \<open>\<^verbatim>\<open>{...obj, k: v}\<close>\<close>

definition set_own :: "string \<Rightarrow> jsval \<Rightarrow> props \<Rightarrow> props" where
  "set_own k v ps = AList.update k v ps"

section \<open>The client\<close>

text \<open>
  \<^verbatim>\<open>class Client\<close>: the held token, the options, the callback. \<^verbatim>\<open>this.instance\<close> (the
  axios instance) takes no part in what follows. The callback is a function of the
  caller: what matters of a call is whether it returns or throws. \<open>posts\<close> is not a
  field of the class: it counts the POST requests this client has issued to the token
  endpoint.
\<close>

record client =
  token :: jsval
  options :: props
  onRefresh :: "(jsval \<Rightarrow> error option) option"
  posts :: nat

text \<open>\<^verbatim>\<open>setToken(token) { this.token = token || {}; }\<close>\<close>

definition setToken :: "jsval \<Rightarrow> client \<Rightarrow> client" where
  "setToken t c = c\<lparr>token := js_or t (JObj [])\<rparr>"

text \<open>
  \<^verbatim>\<open>constructor ({ token, onRefresh, ...options })\<close>: the argument, taken apart as the
  destructuring does.
\<close>

record client_args =
  arg_token :: jsval
  arg_onRefresh :: "(jsval \<Rightarrow> error option) option"
  arg_options :: props

definition default_options :: "props \<Rightarrow> props" where
  "default_options opts =
     set_own ''expiryLeeway'' (js_or (own opts ''expiryLeeway'') (JNum 5))
       (set_own ''expiresIn'' (js_or (own opts ''expiresIn'') (JNum (60 * 5))) opts)"

definition Client :: "client_args \<Rightarrow> client" where
  "Client args =
     setToken (arg_token args)
       \<lparr>token = JUndefined, options = default_options (arg_options args),
        onRefresh = arg_onRefresh args, posts = 0\<rparr>"

text \<open>
  \<^verbatim>\<open>Math.floor(new Date() / 1000)\<close>, for a clock that reads \<open>ms\<close> milliseconds since the
  epoch. A Date holds at most 8640000000000000 milliseconds in absolute value; on these
  the division of doubles, rounded down, is the whole division.
\<close>

definition now_seconds :: "int \<Rightarrow> int" where
  "now_seconds ms = ms div 1000"

text \<open>
  \<^verbatim>\<open>isTokenExpired() { return ((Math.floor(new Date() / 1000) + this.options.expiryLeeway)
  >= this.token.expires_at); }\<close>
\<close>

definition isTokenExpired :: "client \<Rightarrow> int \<Rightarrow> bool result" where
  "isTokenExpired c ms =
     andThen (js_add (JNum (now_seconds ms)) (own (options c) ''expiryLeeway''))
       (\<lambda>lhs. andThen (get_prop (token c) ''expires_at'') (\<lambda>rhs. js_ge lhs rhs))"

section \<open>Fetching a token\<close>

text \<open>
  \<^verbatim>\<open>hasNestedProperty(obj, ...args)\<close>. \<^verbatim>\<open>typeof obj\<close> is \<^verbatim>\<open>'object'\<close> for an object and for
  \<^verbatim>\<open>null\<close>; on \<^verbatim>\<open>null\<close> the call \<^verbatim>\<open>obj.hasOwnProperty(arg)\<close> throws a TypeError, and so it
  does on an object whose own property \<^verbatim>\<open>hasOwnProperty\<close> hides the inherited method (no
  value of \<open>jsval\<close> is a function).
\<close>

fun hasNestedProperty :: "jsval \<Rightarrow> string list \<Rightarrow> bool result" where
  "hasNestedProperty obj [] = Return True"
| "hasNestedProperty obj (arg # args) =
     (case obj of
        JNull \<Rightarrow> Throw TypeError
      | JObj ps \<Rightarrow>
          (if map_of ps ''hasOwnProperty'' \<noteq> None then Throw TypeError
           else case map_of ps arg of
                  None \<Rightarrow> Return False
                | Some v \<Rightarrow> hasNestedProperty v args)
      | _ \<Rightarrow> Return False)"

text \<open>
  The collaborators of \<^verbatim>\<open>fetchToken\<close> are not part of the library: what \<^verbatim>\<open>jws.sign\<close> does
  (it returns the assertion or throws) and how the promise of \<^verbatim>\<open>axios.post\<close> settles (with
  a response object, or rejected with an error value) are inputs of the model.
\<close>

datatype signing = Signed | SignThrows jsval

datatype reply = Resolves jsval | Rejects jsval

text \<open>
  The synchronous part of \<^verbatim>\<open>fetchToken\<close>: \<^verbatim>\<open>expiresAt\<close> is computed from the clock, the
  assertion is signed, the POST is issued. It returns \<^verbatim>\<open>expiresAt\<close>, which the callbacks
  close over.
\<close>

definition fetch_request :: "client \<Rightarrow> int \<Rightarrow> signing \<Rightarrow> jsval result \<times> client" where
  "fetch_request c ms sg =
     (case js_add (JNum (now_seconds ms)) (own (options c) ''expiresIn'') of
        Return expiresAt \<Rightarrow>
          (case sg of
             SignThrows e \<Rightarrow> (Throw (Other e), c)
           | Signed \<Rightarrow> (Return expiresAt, c\<lparr>posts := posts c + 1\<rparr>))
      | Throw e \<Rightarrow> (Throw e, c)
      | Unmodelled \<Rightarrow> (Unmodelled, c))"

text \<open>
  \<^verbatim>\<open>token.expires_at = v\<close> in strict mode (the file starts with \<^verbatim>\<open>'use strict'\<close>): a
  TypeError on anything but an object.
\<close>

fun assign_prop :: "jsval \<Rightarrow> string \<Rightarrow> jsval \<Rightarrow> jsval result" where
  "assign_prop (JObj ps) k v = Return (JObj (set_own k v ps))"
| "assign_prop _ k v = Throw TypeError"

text \<open>
  \<^verbatim>\<open>.then(response => { const token = response.data;
  token.expires_at = token.expires_at || expiresAt; this.setToken(token); return token; })\<close>
\<close>

definition on_response :: "jsval \<Rightarrow> jsval \<Rightarrow> client \<Rightarrow> jsval result \<times> client" where
  "on_response expiresAt response c =
     (case andThen (get_prop response ''data'')
             (\<lambda>tok. andThen (get_prop tok ''expires_at'')
                (\<lambda>ea. assign_prop tok ''expires_at'' (js_or ea expiresAt))) of
        Return tok \<Rightarrow> (Return tok, setToken tok c)
      | Throw e \<Rightarrow> (Throw e, c)
      | Unmodelled \<Rightarrow> (Unmodelled, c))"

text \<open>
  \<^verbatim>\<open>.catch(error => { if (hasNestedProperty(error, 'response', 'data', 'error') &&
  error.response.data.error === 'invalid_grant') { throw new InvalidGrant(
  error.response.data.error_description); } throw error; })\<close>.
  The handler sees what \<^verbatim>\<open>axios.post\<close> rejected with, or what the \<^verbatim>\<open>then\<close> callback
  threw. An error object made by the language or by this library has no own property
  \<^verbatim>\<open>response\<close>, so it is thrown again.
\<close>

definition on_error :: "error \<Rightarrow> jsval result" where
  "on_error err =
     (case err of
        Other e \<Rightarrow>
          andThen (hasNestedProperty e [''response'', ''data'', ''error''])
            (\<lambda>has.
               if has then
                 andThen (get_prop e ''response'')
                   (\<lambda>r. andThen (get_prop r ''data'')
                      (\<lambda>d. andThen (get_prop d ''error'')
                         (\<lambda>x. if x = JStr ''invalid_grant''
                               then andThen (get_prop d ''error_description'')
                                      (\<lambda>descr. Throw (InvalidGrant descr))
                               else Throw (Other e))))
               else Throw (Other e))
      | _ \<Rightarrow> Throw err)"

text \<open>The promise of \<^verbatim>\<open>axios.post(...).then(...).catch(...)\<close> settles.\<close>

definition fetch_settle :: "jsval \<Rightarrow> reply \<Rightarrow> client \<Rightarrow> jsval result \<times> client" where
  "fetch_settle expiresAt rp c =
     (case rp of
        Rejects e \<Rightarrow> (on_error (Other e), c)
      | Resolves response \<Rightarrow>
          (case on_response expiresAt response c of
             (Throw e, c') \<Rightarrow> (on_error e, c')
           | r \<Rightarrow> r))"

text \<open>
  \<^verbatim>\<open>fetchToken()\<close> from the call to the settled promise, when nothing else touches the
  client in between: the clock reads \<open>ms\<close> at the call.
\<close>

definition fetchToken :: "client \<Rightarrow> int \<Rightarrow> signing \<Rightarrow> reply \<Rightarrow> jsval result \<times> client" where
  "fetchToken c ms sg rp =
     (case fetch_request c ms sg of
        (Return expiresAt, c') \<Rightarrow> fetch_settle expiresAt rp c'
      | r \<Rightarrow> r)"

section \<open>The request interceptor\<close>

text \<open>Decimal digits of a whole number, as the conversion of a number to a string writes them.\<close>

fun show_nat :: "nat \<Rightarrow> string" where
  "show_nat n =
     (if n < 10 then [''0123456789'' ! n]
      else show_nat (n div 10) @ [''0123456789'' ! (n mod 10)])"

definition show_int :: "int \<Rightarrow> string" where
  "show_int i = (if i < 0 then CHR ''-'' # show_nat (nat (- i)) else show_nat (nat i))"

text \<open>
  The conversion of a value to a string inside a template literal. A whole number within
  2^53 is written with all its digits; beyond, the digits of the double are not
  modelled. An object is converted by its
  \<^verbatim>\<open>toString\<close>: the inherited one gives \<^verbatim>\<open>[object Object]\<close>, and an own property
  \<^verbatim>\<open>toString\<close> (not a function here) leaves no way to convert it: a TypeError.
\<close>

fun to_string :: "jsval \<Rightarrow> string result" where
  "to_string JUndefined = Return ''undefined''"
| "to_string JNull = Return ''null''"
| "to_string (JBool b) = Return (if b then ''true'' else ''false'')"
| "to_string (JNum n) = (if exact n then Return (show_int n) else Unmodelled)"
| "to_string JNaN = Return ''NaN''"
| "to_string (JStr s) = Return s"
| "to_string (JObj ps) =
     (if map_of ps ''toString'' \<noteq> None then Throw TypeError else Return ''[object Object]'')"

text \<open>
  \<^verbatim>\<open>{...v}\<close>: the own properties of an object, the characters of a string under their
  indices, nothing for any other value.
\<close>

fun spread :: "jsval \<Rightarrow> props" where
  "spread (JObj ps) = ps"
| "spread (JStr s) = map (\<lambda>(i, ch). (show_nat i, JStr [ch])) (enumerate 0 s)"
| "spread _ = []"

text \<open>
  The value the interceptor returns:
  \<^verbatim>\<open>{ ...config, baseURL: oauthClient.token.instance_url, headers: { ...config.headers,
  'Authorization': `${oauthClient.token.token_type} ${oauthClient.token.access_token}` } }\<close>
\<close>

definition authorize :: "client \<Rightarrow> props \<Rightarrow> props result" where
  "authorize c config =
     andThen (get_prop (token c) ''instance_url'')
       (\<lambda>url. andThen (andThen (get_prop (token c) ''token_type'') to_string)
          (\<lambda>ty. andThen (andThen (get_prop (token c) ''access_token'') to_string)
             (\<lambda>acc. Return
                (set_own ''headers''
                   (JObj (set_own ''Authorization'' (JStr (ty @ '' '' @ acc))
                            (spread (own config ''headers''))))
                   (set_own ''baseURL'' url config)))))"

text \<open>
  The two tests at the head of the interceptor: \<open>Return False\<close> when the token is not
  expired (go on to attach it), \<open>Return True\<close> when it is and \<^verbatim>\<open>options.autoRefresh\<close> is
  truthy (go on to the lock), and the throw of \<^verbatim>\<open>new TokenExpired('Token is expired')\<close>.
\<close>

definition needs_refresh :: "client \<Rightarrow> int \<Rightarrow> bool result" where
  "needs_refresh c ms =
     andThen (isTokenExpired c ms)
       (\<lambda>expired.
          if expired then
            if truthy (own (options c) ''autoRefresh'') then Return True
            else Throw (TokenExpired ''Token is expired'')
          else Return False)"

text \<open>
  The function run under the lock,
  \<^verbatim>\<open>() => { if (oauthClient.isTokenExpired()) { return oauthClient.fetchToken(); } }\<close>,
  up to the promise it returns being settled. The clock is read twice: by the test and
  by \<^verbatim>\<open>fetchToken\<close>.
\<close>

definition refresh_if_expired ::
  "client \<Rightarrow> int \<Rightarrow> int \<Rightarrow> signing \<Rightarrow> reply \<Rightarrow> jsval result \<times> client" where
  "refresh_if_expired c ms ms' sg rp =
     (case isTokenExpired c ms of
        Return expired \<Rightarrow>
          if expired then fetchToken c ms' sg rp else (Return JUndefined, c)
      | Throw e \<Rightarrow> (Throw e, c)
      | Unmodelled \<Rightarrow> (Unmodelled, c))"

text \<open>
  \<^verbatim>\<open>token && oauthClient.onRefresh && oauthClient.onRefresh(token);\<close> The callback is
  taken not to touch the client.
\<close>

definition notify :: "jsval \<Rightarrow> client \<Rightarrow> unit result" where
  "notify tok c =
     (if truthy tok then
        (case onRefresh c of
           None \<Rightarrow> Return ()
         | Some callback \<Rightarrow> (case callback tok of None \<Rightarrow> Return () | Some e \<Rightarrow> Throw e))
      else Return ())"

text \<open>
  The interceptor after \<^verbatim>\<open>await lock.acquire(...)\<close>: a rejected promise is thrown on; else
  the callback, then the returned configuration, from the token the client holds then.
\<close>

definition resume :: "jsval result \<Rightarrow> client \<Rightarrow> props \<Rightarrow> props result" where
  "resume outcome c config =
     (case outcome of
        Return tok \<Rightarrow> andThen (notify tok c) (\<lambda>_. authorize c config)
      | Throw e \<Rightarrow> Throw e
      | Unmodelled \<Rightarrow> Unmodelled)"

text \<open>
  The interceptor from the moment the lock is granted: the function under the lock, then
  the rest.
\<close>

definition after_acquire ::
  "client \<Rightarrow> props \<Rightarrow> int \<Rightarrow> int \<Rightarrow> signing \<Rightarrow> reply \<Rightarrow> props result \<times> client" where
  "after_acquire c config ms ms' sg rp =
     (case refresh_if_expired c ms ms' sg rp of
        (outcome, c') \<Rightarrow> (resume outcome c' config, c'))"

text \<open>
  \<^verbatim>\<open>requestInterceptor\<close> for one request that runs alone (nothing else touches the client
  while it waits). The clock reads \<open>ms0\<close> at the first test, \<open>ms\<close> at the test under
  the lock and \<open>ms'\<close> in \<^verbatim>\<open>fetchToken\<close>.
\<close>

definition requestInterceptor ::
  "client \<Rightarrow> props \<Rightarrow> int \<Rightarrow> int \<Rightarrow> int \<Rightarrow> signing \<Rightarrow> reply \<Rightarrow> props result \<times> client" where
  "requestInterceptor c config ms0 ms ms' sg rp =
     (case needs_refresh c ms0 of
        Return refresh \<Rightarrow>
          if refresh then after_acquire c config ms ms' sg rp
          else (authorize c config, c)
      | Throw e \<Rightarrow> (Throw e, c)
      | Unmodelled \<Rightarrow> (Unmodelled, c))"

text \<open>
  axios sends a request with the configuration its request interceptors return, and does
  not send it when one of them throws.
\<close>

fun dispatched :: "props result \<Rightarrow> bool" where
  "dispatched (Return config) = True"
| "dispatched _ = False"

section \<open>Concurrent requests\<close>

text \<open>
  Several requests go through the interceptor of one client. JavaScript runs one piece
  of code at a time; a request gives way only at its \<^verbatim>\<open>await\<close>, while it waits for the
  lock or for the token endpoint. A request is therefore in one of these phases, which
  hold what its closures hold (its configuration, and \<^verbatim>\<open>expiresAt\<close> once it has called
  \<^verbatim>\<open>fetchToken\<close>):
  \<^item> \<open>Idle\<close>: not issued yet;
  \<^item> \<open>Waiting\<close>: it has called \<^verbatim>\<open>lock.acquire\<close> and its function has not run yet;
  \<^item> \<open>Fetching\<close>: its function under the lock has called \<^verbatim>\<open>fetchToken\<close> and the POST is
    in flight;
  \<^item> \<open>Finished\<close>: the interceptor has returned or thrown (also when the lock has rejected
    its call).
\<close>

datatype phase =
    Idle
  | Waiting props
  | Fetching props jsval
  | Finished "props result"

text \<open>
  The lock (\<^verbatim>\<open>async-lock\<close>, one key for the module) is not part of the library. It is
  taken to do what its documentation says: the functions passed to \<^verbatim>\<open>acquire\<close> run one
  at a time, in the order of the calls, each after the promise of the one before has
  settled; and a lock made by \<^verbatim>\<open>new AsyncLock()\<close> keeps at most 1000 calls pending: a call
  made while the lock is held and 1000 calls are pending is rejected with an Error.
  \<open>holder\<close> is the request whose function has the lock, \<open>queue\<close> the requests behind it.
\<close>

record system =
  cl :: client
  holder :: "nat option"
  queue :: "nat list"
  phase :: "nat \<Rightarrow> phase"

definition start :: "client \<Rightarrow> system" where
  "start c = \<lparr>cl = c, holder = None, queue = [], phase = (\<lambda>r. Idle)\<rparr>"

text \<open>
  What can happen: request \<open>r\<close> is issued with a configuration (the clock reads \<open>ms0\<close>);
  the function of \<open>r\<close> runs under the lock (the clock reads \<open>ms\<close> at the test and \<open>ms'\<close>
  in \<^verbatim>\<open>fetchToken\<close>, and \<^verbatim>\<open>jws.sign\<close> does \<open>sg\<close>); the POST of \<open>r\<close> settles with \<open>rp\<close>.
\<close>

datatype event =
    Arrive nat props int
  | Run nat int int signing
  | Settle nat reply

definition max_pending :: nat where
  "max_pending = 1000"

definition acquire :: "nat \<Rightarrow> props \<Rightarrow> system \<Rightarrow> system" where
  "acquire r config s =
     (if holder s = None
      then s\<lparr>holder := Some r, phase := (phase s)(r := Waiting config)\<rparr>
      else if length (queue s) \<ge> max_pending
      then s\<lparr>phase := (phase s)(r := Finished (Throw TooManyPending))\<rparr>
      else s\<lparr>queue := queue s @ [r], phase := (phase s)(r := Waiting config)\<rparr>)"

definition release :: "system \<Rightarrow> system" where
  "release s =
     (case queue s of
        [] \<Rightarrow> s\<lparr>holder := None\<rparr>
      | r # rs \<Rightarrow> s\<lparr>holder := Some r, queue := rs\<rparr>)"

definition finish :: "nat \<Rightarrow> props result \<Rightarrow> system \<Rightarrow> system" where
  "finish r outcome s = s\<lparr>phase := (phase s)(r := Finished outcome)\<rparr>"

text \<open>
  One event. An event that cannot happen in the state (a request issued twice, a function
  run without the lock, a POST that is not in flight) changes nothing. When the lock is
  free, \<^verbatim>\<open>acquire\<close> runs the function at once; here it runs at the next \<open>Run\<close> of the
  request, and what is issued in between only lines up behind it.
\<close>

fun step :: "event \<Rightarrow> system \<Rightarrow> system" where
  "step (Arrive r config ms0) s =
     (case phase s r of
        Idle \<Rightarrow>
          (case needs_refresh (cl s) ms0 of
             Return refresh \<Rightarrow>
               if refresh then acquire r config s
               else finish r (authorize (cl s) config) s
           | Throw e \<Rightarrow> finish r (Throw e) s
           | Unmodelled \<Rightarrow> finish r Unmodelled s)
      | _ \<Rightarrow> s)"
| "step (Run r ms ms' sg) s =
     (case phase s r of
        Waiting config \<Rightarrow>
          if holder s = Some r then
            (case isTokenExpired (cl s) ms of
               Return expired \<Rightarrow>
                 if expired then
                   (case fetch_request (cl s) ms' sg of
                      (Return expiresAt, c') \<Rightarrow>
                        s\<lparr>cl := c', phase := (phase s)(r := Fetching config expiresAt)\<rparr>
                    | (outcome, c') \<Rightarrow>
                        release (finish r (resume outcome c' config) (s\<lparr>cl := c'\<rparr>)))
                 else release (finish r (resume (Return JUndefined) (cl s) config) s)
             | Throw e \<Rightarrow> release (finish r (Throw e) s)
             | Unmodelled \<Rightarrow> release (finish r Unmodelled s))
          else s
      | _ \<Rightarrow> s)"
| "step (Settle r rp) s =
     (case phase s r of
        Fetching config expiresAt \<Rightarrow>
          (case fetch_settle expiresAt rp (cl s) of
             (outcome, c') \<Rightarrow> release (finish r (resume outcome c' config) (s\<lparr>cl := c'\<rparr>)))
      | _ \<Rightarrow> s)"

fun run :: "event list \<Rightarrow> system \<Rightarrow> system" where
  "run [] s = s"
| "run (ev # evs) s = run evs (step ev s)"

text \<open>The POST of request \<open>r\<close> is in flight.\<close>

fun in_flight :: "system \<Rightarrow> nat \<Rightarrow> bool" where
  "in_flight s r = (case phase s r of Fetching config expiresAt \<Rightarrow> True | _ \<Rightarrow> False)"




section \<open>Properties\<close>

subsection \<open>Evaluation of the definitions\<close>

lemma own_set_own: "own (set_own k v ps) k' = (if k' = k then v else own ps k')"
  by (simp add: own_def set_own_def update_conv')

lemma map_of_set_own: "map_of (set_own k v ps) k' = (if k' = k then Some v else map_of ps k')"
  by (simp add: set_own_def update_conv')

lemma andThen_Return_iff:
  "andThen m f = Return y \<longleftrightarrow> (\<exists>x. m = Return x \<and> f x = Return y)"
  by (cases m) auto

lemmas eval_defs =
  Client_def setToken_def default_options_def set_own_def js_or_def own_def
  isTokenExpired_def js_add_def js_ge_def now_seconds_def exact_def
  fetchToken_def fetch_request_def fetch_settle_def on_response_def on_error_def


subsection \<open>The expiry check and the constructor\<close>

text \<open>
  C3. For a held token whose \<^verbatim>\<open>expires_at\<close> is a number and a stored leeway that is a
  number (what the constructor has stored: the configured value, or 5 when that one is
  falsy), \<^verbatim>\<open>isTokenExpired()\<close> returns true exactly when the current time in seconds plus
  the leeway is at least \<^verbatim>\<open>expires_at\<close>. The numbers are those on which doubles are exact:
  the clock is that of a Date, and the leeway, \<^verbatim>\<open>expires_at\<close> and the sum of time and
  leeway stay within 2^53. The check is a function of the clock, the stored leeway and the
  held token: it returns a truth value and writes nothing.
\<close>

theorem isTokenExpired_iff:
  assumes "get_prop (token c) ''expires_at'' = Return (JNum e)"
    and "own (options c) ''expiryLeeway'' = JNum l"
    and "\<bar>ms\<bar> \<le> 8640000000000000"
    and "\<bar>l\<bar> \<le> 2 ^ 53"
    and "\<bar>e\<bar> \<le> 2 ^ 53"
    and "\<bar>now_seconds ms + l\<bar> \<le> 2 ^ 53"
  shows "isTokenExpired c ms = Return (now_seconds ms + l \<ge> e)"
proof -
  have "\<bar>now_seconds ms\<bar> \<le> 2 ^ 53"
    using assms(3) by (simp add: now_seconds_def)
  with assms show ?thesis
    by (simp add: isTokenExpired_def js_add_def js_ge_def exact_def)
qed

theorem isTokenExpired_iff_witness:
  "get_prop (token \<lparr>token = JObj [(''expires_at'', JNum 100)],
                    options = [(''expiryLeeway'', JNum 5)], onRefresh = None, posts = 0\<rparr>)
     ''expires_at'' = Return (JNum 100)
   \<and> own (options \<lparr>token = JObj [(''expires_at'', JNum 100)],
                    options = [(''expiryLeeway'', JNum 5)], onRefresh = None, posts = 0\<rparr>)
     ''expiryLeeway'' = JNum 5
   \<and> \<bar>94999 :: int\<bar> \<le> 8640000000000000
   \<and> \<bar>95000 :: int\<bar> \<le> 8640000000000000
   \<and> \<bar>5 :: int\<bar> \<le> 2 ^ 53
   \<and> \<bar>100 :: int\<bar> \<le> 2 ^ 53
   \<and> \<bar>now_seconds 94999 + 5\<bar> \<le> 2 ^ 53
   \<and> \<bar>now_seconds 95000 + 5\<bar> \<le> 2 ^ 53
   \<and> isTokenExpired \<lparr>token = JObj [(''expires_at'', JNum 100)],
                    options = [(''expiryLeeway'', JNum 5)], onRefresh = None, posts = 0\<rparr> 94999
       = Return False
   \<and> isTokenExpired \<lparr>token = JObj [(''expires_at'', JNum 100)],
                    options = [(''expiryLeeway'', JNum 5)], onRefresh = None, posts = 0\<rparr> 95000
       = Return True"
proof -
  let ?c = "\<lparr>token = JObj [(''expires_at'', JNum 100)],
             options = [(''expiryLeeway'', JNum 5)], onRefresh = None, posts = 0\<rparr>"
  have h1: "get_prop (token ?c) ''expires_at'' = Return (JNum 100)"
    by (simp add: own_def)
  have h2: "own (options ?c) ''expiryLeeway'' = JNum 5"
    by (simp add: own_def)
  have a: "\<bar>94999 :: int\<bar> \<le> 8640000000000000" by simp
  have b: "\<bar>95000 :: int\<bar> \<le> 8640000000000000" by simp
  have l: "\<bar>5 :: int\<bar> \<le> 2 ^ 53" by simp
  have e: "\<bar>100 :: int\<bar> \<le> 2 ^ 53" by simp
  have sa: "\<bar>now_seconds 94999 + 5\<bar> \<le> 2 ^ 53" by (simp add: now_seconds_def)
  have sb: "\<bar>now_seconds 95000 + 5\<bar> \<le> 2 ^ 53" by (simp add: now_seconds_def)
  show ?thesis
    using h1 h2 a b l e sa sb
      isTokenExpired_iff [OF h1 h2 a l e sa] isTokenExpired_iff [OF h1 h2 b l e sb]
    by (simp add: now_seconds_def)
qed

text \<open>
  C4 (the code at the failing input). A client is constructed without a token, with
  \<^verbatim>\<open>autoRefresh\<close> on: it holds the empty object. Its \<^verbatim>\<open>expires_at\<close> is \<^verbatim>\<open>undefined\<close>, which
  \<^verbatim>\<open>>=\<close> converts to NaN, and a comparison with NaN is false: \<^verbatim>\<open>isTokenExpired()\<close>
  returns false, not true. The interceptor then fetches no token (no POST is made) and
  returns the request with \<^verbatim>\<open>baseURL\<close> undefined and the header
  \<^verbatim>\<open>Authorization: undefined undefined\<close>.
\<close>

theorem absent_token_not_refreshed:
  "isTokenExpired
     (Client \<lparr>arg_token = JUndefined, arg_onRefresh = None,
              arg_options = [(''autoRefresh'', JBool True)]\<rparr>) 1700000000000
     = Return False
   \<and> requestInterceptor
       (Client \<lparr>arg_token = JUndefined, arg_onRefresh = None,
                arg_options = [(''autoRefresh'', JBool True)]\<rparr>)
       [(''url'', JStr ''/services/apexrest/myservice'')]
       1700000000000 1700000000000 1700000000000 Signed
       (Resolves (JObj [(''status'', JNum 200),
                        (''data'', JObj [(''access_token'', JStr ''abc''),
                                         (''token_type'', JStr ''Bearer''),
                                         (''instance_url'', JStr ''https://x'')])]))
     = (Return [(''url'', JStr ''/services/apexrest/myservice''), (''baseURL'', JUndefined),
                (''headers'', JObj [(''Authorization'', JStr ''undefined undefined'')])],
        \<lparr>token = JObj [],
         options = [(''autoRefresh'', JBool True), (''expiresIn'', JNum 300),
                    (''expiryLeeway'', JNum 5)],
         onRefresh = None, posts = 0\<rparr>)"
  by (simp add: eval_defs requestInterceptor_def needs_refresh_def authorize_def)

text \<open>
  For comparison: a token whose \<^verbatim>\<open>expires_at\<close> is \<^verbatim>\<open>null\<close> is expired at every time of
  this era, since \<^verbatim>\<open>null\<close> converts to 0; and \<^verbatim>\<open>setToken(null)\<close> leaves the client with
  the empty object as well.
\<close>

lemma null_expires_at_is_expired:
  "isTokenExpired
     (Client \<lparr>arg_token = JObj [(''access_token'', JStr ''abc''), (''expires_at'', JNull)],
              arg_onRefresh = None, arg_options = []\<rparr>) 1700000000000
     = Return True"
  by (simp add: eval_defs)

lemma setToken_absent: "\<not> truthy t \<Longrightarrow> token (setToken t c) = JObj []"
  by (simp add: setToken_def js_or_def)

text \<open>
  C10. The constructor stores \<^verbatim>\<open>expiresIn\<close> 300 whenever \<^verbatim>\<open>options.expiresIn\<close> is absent or
  falsy, and \<^verbatim>\<open>expiryLeeway\<close> 5 whenever \<^verbatim>\<open>options.expiryLeeway\<close> is absent or falsy (an
  absent property reads as \<^verbatim>\<open>undefined\<close>, which is falsy): an explicit 0 is replaced by
  the default.
\<close>

theorem default_option_coercion:
  "(\<not> truthy (own (arg_options args) ''expiresIn'')
      \<longrightarrow> own (options (Client args)) ''expiresIn'' = JNum 300)
   \<and> (\<not> truthy (own (arg_options args) ''expiryLeeway'')
      \<longrightarrow> own (options (Client args)) ''expiryLeeway'' = JNum 5)"
  by (simp add: Client_def setToken_def default_options_def own_set_own js_or_def)

theorem default_option_coercion_witness:
  "\<not> truthy (own [(''expiresIn'', JNum 0), (''expiryLeeway'', JNum 0)] ''expiresIn'')
   \<and> \<not> truthy (own [(''expiresIn'', JNum 0), (''expiryLeeway'', JNum 0)] ''expiryLeeway'')
   \<and> own (options (Client \<lparr>arg_token = JUndefined, arg_onRefresh = None,
          arg_options = [(''expiresIn'', JNum 0), (''expiryLeeway'', JNum 0)]\<rparr>)) ''expiresIn''
       = JNum 300
   \<and> own (options (Client \<lparr>arg_token = JUndefined, arg_onRefresh = None,
          arg_options = [(''expiresIn'', JNum 0), (''expiryLeeway'', JNum 0)]\<rparr>)) ''expiryLeeway''
       = JNum 5"
  using default_option_coercion
    [of "\<lparr>arg_token = JUndefined, arg_onRefresh = None,
          arg_options = [(''expiresIn'', JNum 0), (''expiryLeeway'', JNum 0)]\<rparr>"]
  by (simp add: own_def)

subsection \<open>Fetching a token\<close>

lemma fetch_request_client: "fetch_request c ms sg = (r, c') \<Longrightarrow> c' = c\<lparr>posts := posts c'\<rparr>"
  by (auto simp: fetch_request_def split: result.splits signing.splits)

lemma on_response_client:
  "on_response x response c = (Throw e, c') \<Longrightarrow> c' = c"
  "on_response x response c = (Unmodelled, c') \<Longrightarrow> c' = c"
  by (auto simp: on_response_def split: result.splits)

lemma on_error_throws: "on_error e \<noteq> Return tok"
  by (cases e) (auto simp: on_error_def andThen_Return_iff)

lemma fetch_settle_client:
  assumes "fetch_settle x rp c = (r, c')" and "\<forall>tok. r \<noteq> Return tok"
  shows "c' = c"
proof (cases rp)
  case (Rejects e)
  with assms show ?thesis by (simp add: fetch_settle_def)
next
  case (Resolves response)
  obtain r0 c0 where o: "on_response x response c = (r0, c0)"
    by (cases "on_response x response c")
  show ?thesis
  proof (cases r0)
    case (Return tok)
    with assms Resolves o show ?thesis by (auto simp: fetch_settle_def)
  next
    case (Throw e)
    with o have "c0 = c" by (auto dest: on_response_client)
    with assms Resolves o Throw show ?thesis by (simp add: fetch_settle_def)
  next
    case Unmodelled
    with o have "c0 = c" by (auto dest: on_response_client)
    with assms Resolves o Unmodelled show ?thesis by (simp add: fetch_settle_def)
  qed
qed

lemma fetchToken_client:
  assumes "fetchToken c ms sg rp = (r, c')" and "\<forall>tok. r \<noteq> Return tok"
  shows "c' = c\<lparr>posts := posts c'\<rparr>"
proof -
  obtain r1 c1 where q: "fetch_request c ms sg = (r1, c1)"
    by (cases "fetch_request c ms sg")
  then have c1: "c1 = c\<lparr>posts := posts c1\<rparr>" by (rule fetch_request_client)
  show ?thesis
  proof (cases r1)
    case (Return x)
    with assms q have "fetch_settle x rp c1 = (r, c')" by (simp add: fetchToken_def)
    then have "c' = c1" using assms(2) by (rule fetch_settle_client)
    with c1 show ?thesis by simp
  next
    case (Throw e)
    with assms q c1 show ?thesis by (simp add: fetchToken_def)
  next
    case Unmodelled
    with assms q c1 show ?thesis by (simp add: fetchToken_def)
  qed
qed



text \<open>
  C8. When a call of \<^verbatim>\<open>fetchToken\<close> fails (the signing throws, the POST is rejected, or a
  callback throws), the client holds the token it held before the call: nothing of the
  client has changed but the count of the POSTs issued.
\<close>

theorem fetchToken_failure_keeps_token:
  assumes "fetchToken c ms sg rp = (Throw e, c')"
  shows "token c' = token c \<and> c' = c\<lparr>posts := posts c'\<rparr>"
proof -
  have "c' = c\<lparr>posts := posts c'\<rparr>"
    using assms by (rule fetchToken_client) simp
  then show ?thesis by (metis client.select_convs(1) client.surjective client.update_convs(4))
qed

theorem fetchToken_failure_keeps_token_witness:
  "fetchToken
     (Client \<lparr>arg_token = JObj [(''access_token'', JStr ''old''), (''expires_at'', JNum 1000)],
              arg_onRefresh = None, arg_options = []\<rparr>)
     1000000 Signed (Rejects (JObj [(''code'', JStr ''ECONNREFUSED''), (''response'', JUndefined)]))
   = (Throw (Other (JObj [(''code'', JStr ''ECONNREFUSED''), (''response'', JUndefined)])),
      \<lparr>token = JObj [(''access_token'', JStr ''old''), (''expires_at'', JNum 1000)],
       options = [(''expiresIn'', JNum 300), (''expiryLeeway'', JNum 5)],
       onRefresh = None, posts = 1\<rparr>)
   \<and> token \<lparr>token = JObj [(''access_token'', JStr ''old''), (''expires_at'', JNum 1000)],
       options = [(''expiresIn'', JNum 300), (''expiryLeeway'', JNum 5)],
       onRefresh = None, posts = 1\<rparr>
     = token (Client \<lparr>arg_token = JObj [(''access_token'', JStr ''old''), (''expires_at'', JNum 1000)],
              arg_onRefresh = None, arg_options = []\<rparr>)"
proof -
  let ?c = "Client \<lparr>arg_token = JObj [(''access_token'', JStr ''old''), (''expires_at'', JNum 1000)],
              arg_onRefresh = None, arg_options = []\<rparr>"
  let ?e = "JObj [(''code'', JStr ''ECONNREFUSED''), (''response'', JUndefined)]"
  let ?c' = "\<lparr>token = JObj [(''access_token'', JStr ''old''), (''expires_at'', JNum 1000)],
       options = [(''expiresIn'', JNum 300), (''expiryLeeway'', JNum 5)],
       onRefresh = None, posts = 1\<rparr>"
  have h: "fetchToken ?c 1000000 Signed (Rejects ?e) = (Throw (Other ?e), ?c')"
    by (simp add: eval_defs)
  show ?thesis
    using h fetchToken_failure_keeps_token [OF h] by simp
qed

text \<open>
  C6 (as the claim states it, refuted). The response body carries \<^verbatim>\<open>expires_at: 0\<close>; the
  call succeeds and the stored \<^verbatim>\<open>expires_at\<close> is not 0 but the time of the call plus
  \<^verbatim>\<open>expiresIn\<close>, since \<^verbatim>\<open>token.expires_at || expiresAt\<close> takes 0 for a missing value.
\<close>

theorem response_expires_at_counterexample:
  "fetchToken
     (Client \<lparr>arg_token = JUndefined, arg_onRefresh = None, arg_options = []\<rparr>)
     1000000 Signed
     (Resolves (JObj [(''status'', JNum 200),
                      (''data'', JObj [(''access_token'', JStr ''abc''),
                                       (''expires_at'', JNum 0)])]))
   = (Return (JObj [(''access_token'', JStr ''abc''), (''expires_at'', JNum 1300)]),
      \<lparr>token = JObj [(''access_token'', JStr ''abc''), (''expires_at'', JNum 1300)],
       options = [(''expiresIn'', JNum 300), (''expiryLeeway'', JNum 5)],
       onRefresh = None, posts = 1\<rparr>)"
  by (simp add: eval_defs)

text \<open>
  C6 (amended). After a successful call of \<^verbatim>\<open>fetchToken\<close> the stored token is the returned
  one and its \<^verbatim>\<open>expires_at\<close> is set: it is the \<^verbatim>\<open>expires_at\<close> of the response body when that
  value is truthy, and otherwise (the body has none, or a falsy one such as 0, \<^verbatim>\<open>null\<close> or
  the empty string) the time of the call in seconds plus the stored \<^verbatim>\<open>expiresIn\<close>.
\<close>

theorem fetchToken_sets_expires_at:
  assumes "fetchToken c ms sg (Resolves response) = (Return tok, c')"
    and "get_prop response ''data'' = Return data"
    and "get_prop data ''expires_at'' = Return ea"
    and "js_add (JNum (now_seconds ms)) (own (options c) ''expiresIn'') = Return expiresAt"
  shows "token c' = tok
     \<and> get_prop tok ''expires_at'' = Return (if truthy ea then ea else expiresAt)
     \<and> (if truthy ea then ea else expiresAt) \<noteq> JUndefined"
proof -
  from assms(1,4) have sg: "sg = Signed"
    by (auto simp: fetchToken_def fetch_request_def split: signing.splits)
  with assms(1,4) have st: "fetch_settle expiresAt (Resolves response) (c\<lparr>posts := posts c + 1\<rparr>) = (Return tok, c')"
    by (simp add: fetchToken_def fetch_request_def)
  obtain r0 c0 where o: "on_response expiresAt response (c\<lparr>posts := posts c + 1\<rparr>) = (r0, c0)"
    by (cases "on_response expiresAt response (c\<lparr>posts := posts c + 1\<rparr>)")
  have r0: "r0 = Return tok \<and> c0 = c'"
    using st o on_error_throws by (cases r0) (auto simp: fetch_settle_def)
  have asg: "assign_prop data ''expires_at'' (js_or ea expiresAt) = Return tok"
    using o r0 assms(2,3) by (auto simp: on_response_def split: result.splits)
  then obtain ds where ds: "data = JObj ds" "tok = JObj (set_own ''expires_at'' (js_or ea expiresAt) ds)"
    by (cases data) auto
  have c': "c' = setToken tok (c\<lparr>posts := posts c + 1\<rparr>)"
    using o r0 by (auto simp: on_response_def split: result.splits)
  have "token c' = tok" using c' ds by (simp add: setToken_def js_or_def)
  moreover have "get_prop tok ''expires_at'' = Return (if truthy ea then ea else expiresAt)"
    using ds by (simp add: own_set_own js_or_def)
  moreover have "(if truthy ea then ea else expiresAt) \<noteq> JUndefined"
  proof (cases "truthy ea")
    case True then show ?thesis by auto
  next
    case False
    have "expiresAt \<noteq> JUndefined"
      using assms(4) by (auto simp: js_add_def split: option.splits numeric.splits if_splits)
    with False show ?thesis by simp
  qed
  ultimately show ?thesis by simp
qed

theorem fetchToken_sets_expires_at_witness:
  "fetchToken
     (Client \<lparr>arg_token = JUndefined, arg_onRefresh = None, arg_options = []\<rparr>)
     1000000 Signed
     (Resolves (JObj [(''data'', JObj [(''access_token'', JStr ''abc'')])]))
   = (Return (JObj [(''access_token'', JStr ''abc''), (''expires_at'', JNum 1300)]),
      \<lparr>token = JObj [(''access_token'', JStr ''abc''), (''expires_at'', JNum 1300)],
       options = [(''expiresIn'', JNum 300), (''expiryLeeway'', JNum 5)],
       onRefresh = None, posts = 1\<rparr>)
   \<and> get_prop (JObj [(''data'', JObj [(''access_token'', JStr ''abc'')])]) ''data''
       = Return (JObj [(''access_token'', JStr ''abc'')])
   \<and> get_prop (JObj [(''access_token'', JStr ''abc'')]) ''expires_at'' = Return JUndefined
   \<and> js_add (JNum (now_seconds 1000000))
         (own (options (Client \<lparr>arg_token = JUndefined, arg_onRefresh = None,
                                 arg_options = []\<rparr>)) ''expiresIn'')
       = Return (JNum 1300)
   \<and> get_prop (JObj [(''access_token'', JStr ''abc''), (''expires_at'', JNum 1300)])
         ''expires_at'' = Return (JNum 1300)"
proof -
  let ?c = "Client \<lparr>arg_token = JUndefined, arg_onRefresh = None, arg_options = []\<rparr>"
  let ?d = "JObj [(''access_token'', JStr ''abc'')]"
  let ?t = "JObj [(''access_token'', JStr ''abc''), (''expires_at'', JNum 1300)]"
  let ?c' = "\<lparr>token = ?t, options = [(''expiresIn'', JNum 300), (''expiryLeeway'', JNum 5)],
              onRefresh = None, posts = 1\<rparr>"
  have h1: "fetchToken ?c 1000000 Signed (Resolves (JObj [(''data'', ?d)])) = (Return ?t, ?c')"
    by (simp add: eval_defs)
  have h2: "get_prop (JObj [(''data'', ?d)]) ''data'' = Return ?d"
    by (simp add: own_def)
  have h3: "get_prop ?d ''expires_at'' = Return JUndefined"
    by (simp add: own_def)
  have h4: "js_add (JNum (now_seconds 1000000)) (own (options ?c) ''expiresIn'') = Return (JNum 1300)"
    by (simp add: eval_defs)
  show ?thesis
    using h1 h2 h3 h4 fetchToken_sets_expires_at [OF h1 h2 h3 h4] by simp
qed

text \<open>
  C7 (the code at the failing input). The token endpoint answers 500 with the JSON body
  \<^verbatim>\<open>null\<close>, and axios rejects with an error whose \<^verbatim>\<open>response.data\<close> is \<^verbatim>\<open>null\<close>. In
  \<^verbatim>\<open>hasNestedProperty\<close> the test \<^verbatim>\<open>typeof obj !== 'object'\<close> lets \<^verbatim>\<open>null\<close> through and
  \<^verbatim>\<open>obj.hasOwnProperty\<close> throws: the call fails with a TypeError, not with the error of
  axios.
\<close>

theorem null_body_masks_error:
  "fetchToken
     (Client \<lparr>arg_token = JUndefined, arg_onRefresh = None, arg_options = []\<rparr>)
     1000000 Signed
     (Rejects (JObj [(''message'', JStr ''Request failed with status code 500''),
                     (''response'', JObj [(''status'', JNum 500), (''data'', JNull)])]))
   = (Throw TypeError,
      \<lparr>token = JObj [], options = [(''expiresIn'', JNum 300), (''expiryLeeway'', JNum 5)],
       onRefresh = None, posts = 1\<rparr>)"
  by (simp add: eval_defs)

text \<open>The other two ways through the handler, for comparison.\<close>

lemma on_error_invalid_grant:
  "on_error (Other (JObj [(''response'',
       JObj [(''status'', JNum 400),
             (''data'', JObj [(''error'', JStr ''invalid_grant''),
                              (''error_description'', JStr ''bad signature'')])])]))
   = Throw (InvalidGrant (JStr ''bad signature''))"
  by (simp add: eval_defs)

lemma on_error_rethrows:
  "hasNestedProperty e [''response'', ''data'', ''error''] = Return False
     \<Longrightarrow> on_error (Other e) = Throw (Other e)"
  by (simp add: on_error_def)

subsection \<open>The request interceptor\<close>

text \<open>
  C5. When the token is expired and \<^verbatim>\<open>options.autoRefresh\<close> is false (or missing, or
  falsy), the interceptor throws TokenExpired; the client is as it was (the same token,
  no POST to the token endpoint) and the request is not sent.
\<close>

theorem expired_without_autoRefresh:
  assumes "isTokenExpired c ms0 = Return True"
    and "\<not> truthy (own (options c) ''autoRefresh'')"
  shows "requestInterceptor c config ms0 ms ms' sg rp
           = (Throw (TokenExpired ''Token is expired''), c)
     \<and> \<not> dispatched (fst (requestInterceptor c config ms0 ms ms' sg rp))"
  using assms by (simp add: requestInterceptor_def needs_refresh_def)

theorem expired_without_autoRefresh_witness:
  "isTokenExpired
     (Client \<lparr>arg_token = JObj [(''access_token'', JStr ''expired''), (''expires_at'', JNum 946684800)],
              arg_onRefresh = None, arg_options = []\<rparr>) 1700000000000 = Return True
   \<and> \<not> truthy (own (options
         (Client \<lparr>arg_token = JObj [(''access_token'', JStr ''expired''), (''expires_at'', JNum 946684800)],
                  arg_onRefresh = None, arg_options = []\<rparr>)) ''autoRefresh'')
   \<and> requestInterceptor
         (Client \<lparr>arg_token = JObj [(''access_token'', JStr ''expired''), (''expires_at'', JNum 946684800)],
                  arg_onRefresh = None, arg_options = []\<rparr>)
         [(''url'', JStr ''/services/apexrest/myservice'')]
         1700000000000 1700000000000 1700000000000 Signed (Resolves JUndefined)
       = (Throw (TokenExpired ''Token is expired''),
          Client \<lparr>arg_token = JObj [(''access_token'', JStr ''expired''), (''expires_at'', JNum 946684800)],
                  arg_onRefresh = None, arg_options = []\<rparr>)"
proof -
  let ?c = "Client \<lparr>arg_token = JObj [(''access_token'', JStr ''expired''), (''expires_at'', JNum 946684800)],
                    arg_onRefresh = None, arg_options = []\<rparr>"
  have h1: "isTokenExpired ?c 1700000000000 = Return True"
    by (simp add: eval_defs)
  have h2: "\<not> truthy (own (options ?c) ''autoRefresh'')"
    by (simp add: eval_defs)
  show ?thesis
    using h1 h2
      expired_without_autoRefresh [OF h1 h2, of "[(''url'', JStr ''/services/apexrest/myservice'')]"
        1700000000000 1700000000000 Signed "Resolves JUndefined"]
    by simp
qed

text \<open>
  C9. When the held token is not expired, the interceptor returns at once: the client is
  as it was (no POST to the token endpoint), \<^verbatim>\<open>baseURL\<close> is the \<^verbatim>\<open>instance_url\<close> of the
  token, the header \<^verbatim>\<open>Authorization\<close> is the \<^verbatim>\<open>token_type\<close>, a space and the
  \<^verbatim>\<open>access_token\<close>, as the template literal writes them, every other header of the
  request is kept and so is every other field of the configuration.
\<close>

theorem valid_token_attached:
  assumes "isTokenExpired c ms0 = Return False"
    and "token c = JObj ps"
    and "to_string (own ps ''token_type'') = Return ty"
    and "to_string (own ps ''access_token'') = Return acc"
  shows "\<exists>config' hs.
           requestInterceptor c config ms0 ms ms' sg rp = (Return config', c)
         \<and> own config' ''baseURL'' = own ps ''instance_url''
         \<and> own config' ''headers'' = JObj hs
         \<and> own hs ''Authorization'' = JStr (ty @ '' '' @ acc)
         \<and> (\<forall>h. h \<noteq> ''Authorization''
                \<longrightarrow> map_of hs h = map_of (spread (own config ''headers'')) h)
         \<and> (\<forall>k. k \<noteq> ''baseURL'' \<and> k \<noteq> ''headers'' \<longrightarrow> map_of config' k = map_of config k)"
proof -
  let ?hs = "set_own ''Authorization'' (JStr (ty @ '' '' @ acc)) (spread (own config ''headers''))"
  let ?config' = "set_own ''headers'' (JObj ?hs) (set_own ''baseURL'' (own ps ''instance_url'') config)"
  have "authorize c config = Return ?config'"
    using assms(2-4) by (simp add: authorize_def)
  then have "requestInterceptor c config ms0 ms ms' sg rp = (Return ?config', c)"
    using assms(1) by (simp add: requestInterceptor_def needs_refresh_def)
  moreover have "own ?config' ''baseURL'' = own ps ''instance_url''"
    by (simp add: own_set_own)
  moreover have "own ?config' ''headers'' = JObj ?hs"
    by (simp add: own_set_own)
  moreover have "own ?hs ''Authorization'' = JStr (ty @ '' '' @ acc)"
    by (simp add: own_set_own)
  moreover have "\<forall>h. h \<noteq> ''Authorization''
      \<longrightarrow> map_of ?hs h = map_of (spread (own config ''headers'')) h"
    by (simp add: map_of_set_own)
  moreover have "\<forall>k. k \<noteq> ''baseURL'' \<and> k \<noteq> ''headers'' \<longrightarrow> map_of ?config' k = map_of config k"
    by (simp add: map_of_set_own)
  ultimately show ?thesis by blast
qed

theorem valid_token_attached_witness:
  "\<exists>config' hs.
     requestInterceptor
       \<lparr>token = JObj [(''access_token'', JStr ''abc''), (''token_type'', JStr ''Bearer''),
                      (''instance_url'', JStr ''https://x''), (''expires_at'', JNum 2000)],
        options = [(''expiresIn'', JNum 300), (''expiryLeeway'', JNum 5)],
        onRefresh = None, posts = 0\<rparr>
       [(''url'', JStr ''/a''), (''headers'', JObj [(''Accept'', JStr ''text/plain'')])]
       1000000 0 0 Signed (Resolves JUndefined)
     = (Return config',
        \<lparr>token = JObj [(''access_token'', JStr ''abc''), (''token_type'', JStr ''Bearer''),
                      (''instance_url'', JStr ''https://x''), (''expires_at'', JNum 2000)],
         options = [(''expiresIn'', JNum 300), (''expiryLeeway'', JNum 5)],
         onRefresh = None, posts = 0\<rparr>)
   \<and> own config' ''baseURL'' = JStr ''https://x''
   \<and> own config' ''headers'' = JObj hs
   \<and> own hs ''Authorization'' = JStr ''Bearer abc''
   \<and> map_of hs ''Accept'' = Some (JStr ''text/plain'')
   \<and> map_of config' ''url'' = Some (JStr ''/a'')"
proof -
  let ?ps = "[(''access_token'', JStr ''abc''), (''token_type'', JStr ''Bearer''),
              (''instance_url'', JStr ''https://x''), (''expires_at'', JNum 2000)]"
  let ?c = "\<lparr>token = JObj ?ps, options = [(''expiresIn'', JNum 300), (''expiryLeeway'', JNum 5)],
             onRefresh = None, posts = 0\<rparr>"
  let ?config = "[(''url'', JStr ''/a''), (''headers'', JObj [(''Accept'', JStr ''text/plain'')])]"
  have h1: "isTokenExpired ?c 1000000 = Return False"
    by (simp add: eval_defs)
  have h2: "token ?c = JObj ?ps" by simp
  have h3: "to_string (own ?ps ''token_type'') = Return ''Bearer''"
    by (simp add: own_def)
  have h4: "to_string (own ?ps ''access_token'') = Return ''abc''"
    by (simp add: own_def)
  from valid_token_attached [OF h1 h2 h3 h4, of ?config 0 0 Signed "Resolves JUndefined"]
  obtain config' hs where
    r: "requestInterceptor ?c ?config 1000000 0 0 Signed (Resolves JUndefined) = (Return config', ?c)"
    and b: "own config' ''baseURL'' = own ?ps ''instance_url''"
    and h: "own config' ''headers'' = JObj hs"
    and a: "own hs ''Authorization'' = JStr (''Bearer'' @ '' '' @ ''abc'')"
    and hp: "\<forall>h. h \<noteq> ''Authorization'' \<longrightarrow> map_of hs h = map_of (spread (own ?config ''headers'')) h"
    and cp: "\<forall>k. k \<noteq> ''baseURL'' \<and> k \<noteq> ''headers'' \<longrightarrow> map_of config' k = map_of ?config k"
    by blast
  have "own config' ''baseURL'' = JStr ''https://x''" using b by (simp add: own_def)
  moreover have "own hs ''Authorization'' = JStr ''Bearer abc''" using a by simp
  moreover have "map_of hs ''Accept'' = Some (JStr ''text/plain'')"
    using hp by (simp add: own_def)
  moreover have "map_of config' ''url'' = Some (JStr ''/a'')"
    using cp by simp
  ultimately show ?thesis using r h by blast
qed

text \<open>
  C2. A request has the lock; \<open>c\<close> is the client at that moment, whatever it was when
  the request asked for the lock. When the test under the lock finds the token not
  expired, the function under the lock returns \<^verbatim>\<open>undefined\<close> without calling
  \<^verbatim>\<open>fetchToken\<close> (the client is as it was, whatever the signing and the endpoint would
  have done) and the interceptor goes on with the token the client holds.
\<close>

theorem recheck_skips_fetch:
  assumes "isTokenExpired c ms = Return False"
  shows "refresh_if_expired c ms ms' sg rp = (Return JUndefined, c)
     \<and> after_acquire c config ms ms' sg rp = (authorize c config, c)"
  using assms by (simp add: refresh_if_expired_def after_acquire_def resume_def notify_def)

theorem recheck_skips_fetch_witness:
  "isTokenExpired
     \<lparr>token = JObj [(''access_token'', JStr ''abc''), (''token_type'', JStr ''Bearer''),
                    (''instance_url'', JStr ''https://x''), (''expires_at'', JNum 2000)],
      options = [(''autoRefresh'', JBool True), (''expiresIn'', JNum 300), (''expiryLeeway'', JNum 5)],
      onRefresh = None, posts = 1\<rparr> 1000000 = Return False
   \<and> after_acquire
     \<lparr>token = JObj [(''access_token'', JStr ''abc''), (''token_type'', JStr ''Bearer''),
                    (''instance_url'', JStr ''https://x''), (''expires_at'', JNum 2000)],
      options = [(''autoRefresh'', JBool True), (''expiresIn'', JNum 300), (''expiryLeeway'', JNum 5)],
      onRefresh = None, posts = 1\<rparr>
     [(''url'', JStr ''/a'')] 1000000 1000000 Signed (Rejects JNull)
   = (Return [(''url'', JStr ''/a''), (''baseURL'', JStr ''https://x''),
              (''headers'', JObj [(''Authorization'', JStr ''Bearer abc'')])],
      \<lparr>token = JObj [(''access_token'', JStr ''abc''), (''token_type'', JStr ''Bearer''),
                    (''instance_url'', JStr ''https://x''), (''expires_at'', JNum 2000)],
      options = [(''autoRefresh'', JBool True), (''expiresIn'', JNum 300), (''expiryLeeway'', JNum 5)],
      onRefresh = None, posts = 1\<rparr>)"
proof -
  let ?c = "\<lparr>token = JObj [(''access_token'', JStr ''abc''), (''token_type'', JStr ''Bearer''),
                    (''instance_url'', JStr ''https://x''), (''expires_at'', JNum 2000)],
      options = [(''autoRefresh'', JBool True), (''expiresIn'', JNum 300), (''expiryLeeway'', JNum 5)],
      onRefresh = None, posts = 1\<rparr>"
  have h: "isTokenExpired ?c 1000000 = Return False"
    by (simp add: eval_defs)
  show ?thesis
    using h recheck_skips_fetch [OF h, of 1000000 Signed "Rejects JNull" "[(''url'', JStr ''/a'')]"]
    by (simp add: authorize_def own_def set_own_def)
qed

subsection \<open>Concurrent requests\<close>









text \<open>
  One request that runs alone: the three events give what \<open>requestInterceptor\<close> gives.
\<close>

lemma alone_agrees:
  "phase (run [Arrive r config ms0, Run r ms ms' sg, Settle r rp] (start c)) r
     = Finished (fst (requestInterceptor c config ms0 ms ms' sg rp))
   \<and> cl (run [Arrive r config ms0, Run r ms ms' sg, Settle r rp] (start c))
     = snd (requestInterceptor c config ms0 ms ms' sg rp)"
proof (cases "needs_refresh c ms0")
  case (Return refresh)
  show ?thesis
  proof (cases refresh)
    case False
    with Return show ?thesis
      by (simp add: requestInterceptor_def start_def finish_def)
  next
    case True
    note nr = Return [unfolded True]
    show ?thesis
    proof (cases "isTokenExpired c ms")
      case (Return expired)
      show ?thesis
      proof (cases expired)
        case False
        with nr Return show ?thesis
          by (simp add: requestInterceptor_def after_acquire_def refresh_if_expired_def
              start_def acquire_def finish_def release_def)
      next
        case True
        obtain q c1 where q: "fetch_request c ms' sg = (q, c1)"
          by (cases "fetch_request c ms' sg")
        show ?thesis
        proof (cases q)
          case (Return x)
          obtain o2 c2 where st: "fetch_settle x rp c1 = (o2, c2)"
            by (cases "fetch_settle x rp c1")
          with nr \<open>isTokenExpired c ms = Return expired\<close> True q Return show ?thesis
            by (simp add: requestInterceptor_def after_acquire_def refresh_if_expired_def
                fetchToken_def start_def acquire_def finish_def release_def)
        next
          case (Throw e)
          with nr \<open>isTokenExpired c ms = Return expired\<close> True q show ?thesis
            by (simp add: requestInterceptor_def after_acquire_def refresh_if_expired_def
                fetchToken_def start_def acquire_def finish_def release_def resume_def)
        next
          case Unmodelled
          with nr \<open>isTokenExpired c ms = Return expired\<close> True q show ?thesis
            by (simp add: requestInterceptor_def after_acquire_def refresh_if_expired_def
                fetchToken_def start_def acquire_def finish_def release_def resume_def)
        qed
      qed
    next
      case (Throw e)
      with nr show ?thesis
        by (simp add: requestInterceptor_def after_acquire_def refresh_if_expired_def
            start_def acquire_def finish_def release_def resume_def)
    next
      case Unmodelled
      with nr show ?thesis
        by (simp add: requestInterceptor_def after_acquire_def refresh_if_expired_def
            start_def acquire_def finish_def release_def resume_def)
    qed
  qed
next
  case (Throw e)
  then show ?thesis by (simp add: requestInterceptor_def start_def finish_def)
next
  case Unmodelled
  then show ?thesis by (simp add: requestInterceptor_def start_def finish_def)
qed

text \<open>
  A request that has the lock and finds the token valid makes no call: it finishes
  with the stored token and hands the lock on.
\<close>

lemma run_with_valid_token:
  assumes "phase s r = Waiting config" and "holder s = Some r"
    and "isTokenExpired (cl s) ms = Return False"
  shows "step (Run r ms ms' sg) s = release (finish r (authorize (cl s) config) s)"
  using assms by (simp add: resume_def notify_def)







text \<open>
  When a call of \<^verbatim>\<open>fetchToken\<close> fails, the error goes to the request that made the call,
  the client is as it was and the lock is handed on; the request that gets the lock and
  still finds the token expired makes a POST of its own.
\<close>

lemma failed_fetch_goes_to_its_caller:
  assumes "phase s r = Fetching config x"
    and "fetch_settle x rp (cl s) = (Throw e, c')"
  shows "step (Settle r rp) s = release (finish r (Throw e) s)"
proof -
  have "c' = cl s" using assms(2) by (rule fetch_settle_client) simp
  with assms show ?thesis by (simp add: resume_def)
qed

lemma waiter_fetches_again:
  assumes "phase s r = Waiting config" and "holder s = Some r"
    and "isTokenExpired (cl s) ms = Return True"
    and "js_add (JNum (now_seconds ms')) (own (options (cl s)) ''expiresIn'') = Return x"
  shows "in_flight (step (Run r ms ms' Signed) s) r
     \<and> posts (cl (step (Run r ms ms' Signed) s)) = posts (cl s) + 1"
  using assms by (simp add: fetch_request_def)

text \<open>
  A request that finds the token expired while the lock is held and 1000 calls are
  pending is rejected by the lock: the interceptor throws the Error of the lock.
\<close>

lemma lock_rejects_beyond_limit:
  assumes "phase s r = Idle" and "needs_refresh (cl s) ms0 = Return True"
    and "holder s \<noteq> None" and "max_pending \<le> length (queue s)"
  shows "step (Arrive r config ms0) s
           = s\<lparr>phase := (phase s)(r := Finished (Throw TooManyPending))\<rparr>"
  using assms by (auto simp: acquire_def)

text \<open>
  The request that made the call runs the callback before it attaches the token: when
  \<^verbatim>\<open>onRefresh\<close> throws, that request throws what the callback threw, and the token stays
  stored.
\<close>

lemma throwing_callback_fails_its_request:
  assumes "truthy tok" and "onRefresh c = Some callback" and "callback tok = Some e"
  shows "resume (Return tok) c config = Throw e"
  using assms by (simp add: resume_def notify_def)




end
